theory Spec2Isabelle
  imports Complex_Main "HOL-Library.Char_ord" "HOL-Library.List_Lexorder" "HOL-Library.Multiset"
begin

section \<open>Data model of the generate-game widget\<close>

text \<open>
  The widget module \<^verbatim>\<open>randovania/gui/widgets/generate_game_widget.py\<close> is a layer of
  event handlers over collaborators that live in other modules (presets, the preset
  manager, the options object, Qt widgets). Each collaborator is a record holding exactly
  what the handlers read or write; every handler takes the widget state and returns the
  new one.
\<close>

text \<open>A \<^verbatim>\<open>uuid.UUID\<close>, kept as its canonical text, which is what \<^verbatim>\<open>str(uuid)\<close> prints.\<close>

datatype UUID = UUID (uuid_str: string)

text \<open>The fields of a \<^verbatim>\<open>Preset\<close> that the widget reads.\<close>

record Preset =
  p_name :: string
  p_uuid :: UUID
  p_description :: string
  p_base_preset_uuid :: "UUID option"

text \<open>
  \<^verbatim>\<open>InvalidPreset\<close> carries the exception that made the conversion fail; the widget only
  formats it into a message, so it is kept as that text.
\<close>

datatype InvalidPreset = InvalidPreset (original_exception: string)

text \<open>
  A \<^verbatim>\<open>VersionedPreset\<close>: name, uuid and base uuid can be read without converting the
  stored data; \<^verbatim>\<open>get_preset()\<close> either returns the preset or raises \<^verbatim>\<open>InvalidPreset\<close>.
\<close>

record VersionedPreset =
  vp_name :: string
  vp_uuid :: UUID
  vp_base_preset_uuid :: "UUID option"
  get_preset :: "InvalidPreset + Preset"

text \<open>
  Modelled from the spec: \<^verbatim>\<open>VersionedPreset.with_preset\<close> is defined outside the slice.
  It wraps an already valid preset, whose identity it takes over.
\<close>

definition with_preset :: "Preset \<Rightarrow> VersionedPreset" where
  "with_preset p =
     \<lparr>vp_name = p_name p, vp_uuid = p_uuid p,
      vp_base_preset_uuid = p_base_preset_uuid p, get_preset = Inr p\<rparr>"

type_synonym Path = "string list"

fun join :: "string \<Rightarrow> string list \<Rightarrow> string" where
  "join sep [] = []"
| "join sep [x] = x"
| "join sep (x # y # ys) = x @ sep @ join sep (y # ys)"

definition path_str :: "Path \<Rightarrow> string" where
  "path_str p = join ''/'' p"

text \<open>The apostrophe and the line feed, which the messages of the widget contain.\<close>

definition apostrophe :: string where
  "apostrophe = [CHR 0x27]"

definition newline :: string where
  "newline = [CHR 0x0A]"

subsection \<open>The preset context menu\<close>

record QAction =
  text_of :: string
  enabled :: bool
  visible :: bool

definition setEnabled :: "bool \<Rightarrow> QAction \<Rightarrow> QAction" where
  "setEnabled v a = a\<lparr>enabled := v\<rparr>"

record PresetMenu =
  action_customize :: QAction
  action_delete :: QAction
  action_history :: QAction
  action_export :: QAction
  action_duplicate :: QAction
  action_map_tracker :: QAction
  action_required_tricks :: QAction
  action_import :: QAction
  action_view_deleted :: QAction
  menu_preset :: "VersionedPreset option"

text \<open>
  \<^verbatim>\<open>PresetMenu.set_preset\<close>: the first loop enables delete, history and export when the
  preset is there and has a base preset; the second loop enables the other four when the
  preset is there.
\<close>

definition set_preset :: "VersionedPreset option \<Rightarrow> PresetMenu \<Rightarrow> PresetMenu" where
  "set_preset preset self =
     (let forked = (case preset of None \<Rightarrow> False | Some vp \<Rightarrow> vp_base_preset_uuid vp \<noteq> None);
          present = (preset \<noteq> None)
      in self\<lparr>menu_preset := preset,
              action_delete := setEnabled forked (action_delete self),
              action_history := setEnabled forked (action_history self),
              action_export := setEnabled forked (action_export self),
              action_customize := setEnabled present (action_customize self),
              action_duplicate := setEnabled present (action_duplicate self),
              action_map_tracker := setEnabled present (action_map_tracker self),
              action_required_tricks := setEnabled present (action_required_tricks self)\<rparr>)"

subsection \<open>The widget\<close>

datatype StandardButton = Yes | No | Cancel

text \<open>
  A \<^verbatim>\<open>QSpinBox\<close>: the range it was set up with and its value. Qt keeps the value
  inside the range.
\<close>

record QSpinBox =
  sb_minimum :: int
  sb_maximum :: int
  sb_value :: int


datatype message_box = Critical string string | Warning string string

text \<open>
  The state the handlers touch: the preset manager's store of presets by uuid and its
  default preset for the widget's game, the uuid the options remember as selected, the
  preset selected in the tree, the spin box of the players, the message boxes shown so far, the
  description label and the two generate buttons.
\<close>

record Widget =
  preset_manager :: "UUID \<rightharpoonup> VersionedPreset"
  default_preset_for_game :: VersionedPreset
  selected_preset_uuid :: "UUID option"
  current_preset_data :: "VersionedPreset option"
  num_players_spin_box :: QSpinBox
  message_boxes :: "message_box list"
  create_preset_description :: string
  create_generate_button :: bool
  create_generate_race_button :: bool

text \<open>
  Modelled from the spec: the preset manager is defined outside the slice. Its
  \<^verbatim>\<open>add\<close> inserts or overwrites by uuid, and \<^verbatim>\<open>preset_for_uuid\<close> looks a uuid up.
\<close>

definition add_new_preset ::
  "VersionedPreset \<Rightarrow> (UUID \<rightharpoonup> VersionedPreset) \<Rightarrow> (UUID \<rightharpoonup> VersionedPreset)" where
  "add_new_preset preset store = store(vp_uuid preset \<mapsto> preset)"

definition preset_for_uuid :: "(UUID \<rightharpoonup> VersionedPreset) \<Rightarrow> UUID \<Rightarrow> VersionedPreset option" where
  "preset_for_uuid store u = store u"

text \<open>
  \<^verbatim>\<open>GenerateGameWidget._add_new_preset\<close>: remember the uuid as selected, add the preset to
  the manager, refresh the tree and select the preset there.
\<close>

definition widget_add_new_preset :: "VersionedPreset \<Rightarrow> Widget \<Rightarrow> Widget" where
  "widget_add_new_preset preset self =
     self\<lparr>selected_preset_uuid := Some (vp_uuid preset),
          preset_manager := add_new_preset preset (preset_manager self),
          current_preset_data := Some preset\<rparr>"

definition invalid_preset_text :: "Path \<Rightarrow> string" where
  "invalid_preset_text path =
     ''The file at '' @ apostrophe @ path_str path @ apostrophe @ '' contains an invalid preset.''"

definition conflict_text :: "string \<Rightarrow> string \<Rightarrow> string" where
  "conflict_text new_name old_name =
     ''The new preset '' @ apostrophe @ new_name @ apostrophe @ '' has the same ID as existing ''
       @ apostrophe @ old_name @ apostrophe @ ''. Do you want to overwrite it?''"

text \<open>
  \<^verbatim>\<open>GenerateGameWidget.import_preset_file\<close>. The file system is the map
  \<open>from_file_sync\<close> from a path to the versioned preset stored there (a path with no
  readable preset makes \<^verbatim>\<open>VersionedPreset.from_file_sync\<close> raise: the result \<open>None\<close>),
  \<open>user_response\<close> is the button the user presses in the conflict dialog, and \<open>uuid4\<close>
  is the value \<^verbatim>\<open>uuid.uuid4()\<close> returns.
\<close>

definition import_preset_file ::
  "(Path \<rightharpoonup> VersionedPreset) \<Rightarrow> StandardButton \<Rightarrow> UUID \<Rightarrow> Path \<Rightarrow> Widget \<Rightarrow> Widget option" where
  "import_preset_file from_file_sync user_response uuid4 path self =
     (case from_file_sync path of
        None \<Rightarrow> None
      | Some preset \<Rightarrow>
          (case get_preset preset of
             Inl e \<Rightarrow>
               Some (self\<lparr>message_boxes := message_boxes self @
                       [Critical ''Error loading preset'' (invalid_preset_text path)]\<rparr>)
           | Inr raw \<Rightarrow>
               (case preset_for_uuid (preset_manager self) (vp_uuid preset) of
                  None \<Rightarrow> Some (widget_add_new_preset preset self)
                | Some existing_preset \<Rightarrow>
                    (let asked = self\<lparr>message_boxes := message_boxes self @
                           [Warning ''Preset ID conflict''
                              (conflict_text (vp_name preset) (vp_name existing_preset))]\<rparr>
                     in case user_response of
                          Cancel \<Rightarrow> Some asked
                        | No \<Rightarrow>
                            Some (widget_add_new_preset
                                    (with_preset (raw\<lparr>p_uuid := uuid4\<rparr>)) asked)
                        | Yes \<Rightarrow> Some (widget_add_new_preset preset asked)))))"

definition invalid_description :: "VersionedPreset \<Rightarrow> InvalidPreset \<Rightarrow> string" where
  "invalid_description preset e =
     ''Preset '' @ vp_name preset @ '' can'' @ apostrophe
       @ ''t be used as it contains the following error:''
       @ newline @ original_exception e @ newline
       @ newline @ ''Please open edit the preset file with id '' @ uuid_str (vp_uuid preset)
       @ '' manually or delete this preset.''"

definition valid_description :: "(Preset \<Rightarrow> string) \<Rightarrow> Preset \<Rightarrow> string" where
  "valid_description describe raw_preset =
     ''<p style='' @ apostrophe @ ''font-weight:600;'' @ apostrophe @ ''>'' @ p_name raw_preset
       @ ''</p><p>'' @ p_description raw_preset @ ''</p>'' @ describe raw_preset"

text \<open>
  \<^verbatim>\<open>GenerateGameWidget.on_preset_changed\<close>; \<open>describe\<close> is the text
  \<^verbatim>\<open>preset_describer\<close> renders for a preset.
\<close>

definition on_preset_changed ::
  "(Preset \<Rightarrow> string) \<Rightarrow> VersionedPreset option \<Rightarrow> Widget \<Rightarrow> Widget" where
  "on_preset_changed describe preset self =
     (let (can_generate, description) =
        (case preset of
           None \<Rightarrow> (False, ''Please select a preset from the list.'')
         | Some vp \<Rightarrow>
             (case get_preset vp of
                Inr raw_preset \<Rightarrow> (True, valid_description describe raw_preset)
              | Inl e \<Rightarrow> (False, invalid_description vp e)))
      in self\<lparr>create_preset_description := description,
              create_generate_button := can_generate,
              create_generate_race_button := can_generate\<rparr>)"

subsection \<open>Requesting a new layout\<close>

record 'p GeneratorParameters =
  seed_number :: int
  spoiler :: bool
  presets :: "'p list"

text \<open>The values \<^verbatim>\<open>random.randint(a, b)\<close> can return: both ends are included.\<close>

definition randint :: "int \<Rightarrow> int \<Rightarrow> int set" where
  "randint a b = {a..b}"

text \<open>Python's \<^verbatim>\<open>xs * n\<close> on a list: no copy at all when \<open>n\<close> is zero or negative.\<close>

definition list_times :: "'a list \<Rightarrow> int \<Rightarrow> 'a list" where
  "list_times xs n = concat (replicate (nat n) xs)"

text \<open>The \<^verbatim>\<open>preset\<close> property: the selected preset, or the default one of the game.\<close>

definition widget_preset :: "Widget \<Rightarrow> VersionedPreset" where
  "widget_preset self =
     (case current_preset_data self of
        None \<Rightarrow> default_preset_for_game self
      | Some preset \<Rightarrow> preset)"

text \<open>
  \<^verbatim>\<open>GenerateGameWidget.generate_new_layout\<close>, up to the parameters it hands to
  \<^verbatim>\<open>Permalink.from_parameters\<close>. \<open>random_randint\<close> is \<^verbatim>\<open>random.randint\<close> as this
  run sees it. The arguments of the constructor are evaluated in order, so the draw
  happens before \<^verbatim>\<open>get_preset()\<close> can raise.
\<close>

definition generate_new_layout ::
  "(int \<Rightarrow> int \<Rightarrow> int) \<Rightarrow> bool \<Rightarrow> int option \<Rightarrow> Widget
     \<Rightarrow> InvalidPreset + (Preset GeneratorParameters \<times> int option)" where
  "generate_new_layout random_randint spoiler_flag retries self =
     (let preset = widget_preset self;
          num_players = sb_value (num_players_spin_box self);
          seed = random_randint 0 (2 ^ 31)
      in case get_preset preset of
           Inl e \<Rightarrow> Inl e
         | Inr raw \<Rightarrow>
             Inr (\<lparr>seed_number = seed, spoiler = spoiler_flag,
                   presets = list_times [raw] num_players\<rparr>, retries))"

section \<open>Persisting a layout and the background work\<close>

record RandovaniaGame =
  short_name :: string
  long_name :: string

text \<open>
  What the widget reads of a \<^verbatim>\<open>LayoutDescription\<close>: \<open>all_games\<close> in the order the
  iteration over the set of games happens to yield them, the two hashes, and the value of
  \<^verbatim>\<open>file_extension()\<close>.
\<close>

record LayoutDescription =
  all_games :: "RandovaniaGame list"
  shareable_hash :: string
  shareable_word_hash :: string
  file_extension :: string

record datetime =
  dt_year :: nat
  dt_month :: nat
  dt_day :: nat
  dt_hour :: nat
  dt_minute :: nat
  dt_second :: nat

text \<open>The last \<open>w\<close> decimal digits of a number, zero padded.\<close>

fun digits :: "nat \<Rightarrow> nat \<Rightarrow> string" where
  "digits 0 n = []"
| "digits (Suc w) n = digits w (n div 10) @ [char_of (48 + n mod 10)]"

text \<open>
  \<^verbatim>\<open>strftime("%Y-%m-%d-%H-%M-%S")\<close>: four digits for the year (the years 1000 to 9999,
  which includes every year \<^verbatim>\<open>datetime.now()\<close> returns today), two for each other field.
\<close>

definition strftime :: "datetime \<Rightarrow> string" where
  "strftime t =
     digits 4 (dt_year t) @ ''-'' @ digits 2 (dt_month t) @ ''-'' @ digits 2 (dt_day t) @ ''-''
       @ digits 2 (dt_hour t) @ ''-'' @ digits 2 (dt_minute t) @ ''-'' @ digits 2 (dt_second t)"

text \<open>
  The file system: the directories that exist and the files with their contents. A history
  file holds a layout description.
\<close>

record FileSystem =
  dirs :: "Path set"
  files :: "Path \<rightharpoonup> LayoutDescription"

datatype os_error = FileExistsError

text \<open>The path itself and every parent of it, the root included.\<close>

definition parents_and_self :: "Path \<Rightarrow> Path list" where
  "parents_and_self p = map (\<lambda>n. take n p) [0..<Suc (length p)]"

text \<open>
  \<^verbatim>\<open>Path.mkdir(parents=True, exist_ok=True)\<close>: creates the directory and its missing
  parents, accepts a directory that exists, and raises when the path or a parent of it is
  a file.
\<close>

definition mkdir :: "Path \<Rightarrow> FileSystem \<Rightarrow> os_error + FileSystem" where
  "mkdir p fs =
     (if list_ex (\<lambda>q. files fs q \<noteq> None) (parents_and_self p) then Inl FileExistsError
      else Inr (fs\<lparr>dirs := dirs fs \<union> set (parents_and_self p)\<rparr>))"

definition joinpath :: "Path \<Rightarrow> string \<Rightarrow> Path" where
  "joinpath p child = p @ [child]"

text \<open>
  Modelled from the spec: \<^verbatim>\<open>LayoutDescription.save_to_file\<close> is defined outside the slice.
  It persists the description at the path it is given; as any write of a file by name, it
  replaces what the path held.
\<close>

definition save_to_file :: "Path \<Rightarrow> LayoutDescription \<Rightarrow> FileSystem \<Rightarrow> FileSystem" where
  "save_to_file path description fs = fs\<lparr>files := (files fs)(path \<mapsto> description)\<rparr>"

definition games_part :: "LayoutDescription \<Rightarrow> string" where
  "games_part description = join ''-'' (sort (map short_name (all_games description)))"

definition history_file_name :: "datetime \<Rightarrow> LayoutDescription \<Rightarrow> string" where
  "history_file_name now description =
     strftime now @ ''_'' @ games_part description @ ''_'' @ shareable_word_hash description
       @ ''.'' @ file_extension description"

text \<open>\<^verbatim>\<open>persist_layout\<close>; \<open>now\<close> is what \<^verbatim>\<open>datetime.datetime.now()\<close> returns.\<close>

definition persist_layout ::
  "datetime \<Rightarrow> Path \<Rightarrow> LayoutDescription \<Rightarrow> FileSystem \<Rightarrow> os_error + FileSystem" where
  "persist_layout now history_dir description fs =
     (case mkdir history_dir fs of
        Inl e \<Rightarrow> Inl e
      | Inr fs1 \<Rightarrow>
          (let file_path = joinpath history_dir (history_file_name now description)
           in Inr (save_to_file file_path description fs1)))"

datatype GenerationFailure = GenerationFailure (failure_str: string)

text \<open>What a run of the background work does that its surroundings can observe.\<close>

datatype work_event =
  ProgressUpdate string real
  | HandleFailure GenerationFailure
  | OpenGameDetails LayoutDescription

definition report :: "string \<times> real \<Rightarrow> work_event" where
  "report u = ProgressUpdate (fst u) (snd u)"

text \<open>
  The function \<^verbatim>\<open>work\<close> inside \<^verbatim>\<open>generate_layout_from_permalink\<close>.
  \<^verbatim>\<open>simplified_patcher.generate_layout\<close> is outside the slice: \<open>generated\<close> is what one
  call of it does, the progress updates it sends and then the layout it returns or the
  \<^verbatim>\<open>GenerationFailure\<close> it raises. An error of \<^verbatim>\<open>persist_layout\<close> is not caught:
  the run ends there, before the game details open.
\<close>

definition work ::
  "(string \<times> real) list \<times> (GenerationFailure + LayoutDescription) \<Rightarrow> datetime \<Rightarrow> Path
     \<Rightarrow> FileSystem \<Rightarrow> work_event list \<times> FileSystem" where
  "work generated now game_history_path fs =
     (case snd generated of
        Inr layout \<Rightarrow>
          (let success = ProgressUpdate (''Success! (Seed hash: '' @ shareable_hash layout @ '')'') 1
           in case persist_layout now game_history_path layout fs of
                Inl e \<Rightarrow> (map report (fst generated) @ [success], fs)
              | Inr fs1 \<Rightarrow> (map report (fst generated) @ [success, OpenGameDetails layout], fs1))
      | Inl generate_exception \<Rightarrow>
          (map report (fst generated) @
             [HandleFailure generate_exception,
              ProgressUpdate (''Generation Failure: '' @ failure_str generate_exception) (- 1)],
           fs))"

text \<open>The fractions of the progress updates of a run, in the order they were sent.\<close>

fun progress_fractions :: "work_event list \<Rightarrow> real list" where
  "progress_fractions [] = []"
| "progress_fractions (ProgressUpdate m f # es) = f # progress_fractions es"
| "progress_fractions (e # es) = progress_fractions es"

section \<open>The configuration of Metroid Prime 3: Corruption\<close>

text \<open>The metadata of a numeric field of a configuration dataclass.\<close>

record field_metadata =
  md_min :: int
  md_max :: int
  md_precision :: int

text \<open>
  \<^verbatim>\<open>CorruptionConfiguration\<close>; the types of the teleporter configuration and of the
  logical resource action are defined outside the slice.
\<close>

record ('t, 'a) CorruptionConfiguration =
  elevators :: 't
  energy_per_tank :: int
  logical_resource_action :: 'a
  start_with_corrupted_hypermode :: bool

definition energy_per_tank_metadata :: field_metadata where
  "energy_per_tank_metadata = \<lparr>md_min = 1, md_max = 1000, md_precision = 1\<rparr>"

datatype ValidationError = ValidationError (invalid_fields: "string list")

definition in_domain :: "field_metadata \<Rightarrow> int \<Rightarrow> bool" where
  "in_domain m v = (md_min m \<le> v \<and> v \<le> md_max m \<and> (v - md_min m) mod md_precision m = 0)"

text \<open>
  Modelled from the spec: the validation of a configuration happens in
  \<^verbatim>\<open>BaseConfiguration\<close> and its loaders, outside the slice, which only declares the
  domain of the field. The spec has \<^verbatim>\<open>validate\<close> check every field against its declared
  domain and report the fields that violate it, and has construction and loading refuse
  an invalid configuration without correcting it.
\<close>

definition validate :: "('t, 'a) CorruptionConfiguration \<Rightarrow> ValidationError + unit" where
  "validate c =
     (if in_domain energy_per_tank_metadata (energy_per_tank c) then Inr ()
      else Inl (ValidationError [''energy_per_tank'']))"

definition construct ::
  "'t \<Rightarrow> int \<Rightarrow> 'a \<Rightarrow> bool \<Rightarrow> ValidationError + ('t, 'a) CorruptionConfiguration" where
  "construct el energy action hypermode =
     (let c = \<lparr>elevators = el, energy_per_tank = energy, logical_resource_action = action,
                start_with_corrupted_hypermode = hypermode\<rparr>
      in case validate c of Inl e \<Rightarrow> Inl e | Inr u \<Rightarrow> Inr c)"

section \<open>Concrete inputs\<close>

text \<open>Small concrete states on which the theorems below are run.\<close>

definition example_raw :: Preset where
  "example_raw =
     \<lparr>p_name = ''Starter Preset'', p_uuid = UUID ''fc3bd2c5-0b18-4a0e-8a0e-3c8d1c8c3a11'',
      p_description = ''Basic defaults'', p_base_preset_uuid = None\<rparr>"

definition example_builtin :: VersionedPreset where
  "example_builtin = with_preset example_raw"

definition example_fork_raw :: Preset where
  "example_fork_raw =
     \<lparr>p_name = ''My Preset'', p_uuid = UUID ''5d0c1a6e-7f7e-4f45-9a59-0d4c2f1b6e22'',
      p_description = ''A fork'', p_base_preset_uuid = Some (p_uuid example_raw)\<rparr>"

definition example_fork :: VersionedPreset where
  "example_fork = with_preset example_fork_raw"

definition example_broken :: VersionedPreset where
  "example_broken =
     \<lparr>vp_name = ''Broken'', vp_uuid = UUID ''00000000-0000-4000-8000-000000000001'',
      vp_base_preset_uuid = Some (p_uuid example_raw),
      get_preset = Inl (InvalidPreset ''energy_per_tank is 5000'')\<rparr>"

definition example_action :: QAction where
  "example_action = \<lparr>text_of = ''Action'', enabled = True, visible = True\<rparr>"

definition example_menu :: PresetMenu where
  "example_menu =
     \<lparr>action_customize = example_action, action_delete = example_action,
      action_history = example_action, action_export = example_action,
      action_duplicate = example_action, action_map_tracker = example_action,
      action_required_tricks = example_action, action_import = example_action,
      action_view_deleted = example_action, menu_preset = None\<rparr>"

definition example_widget :: Widget where
  "example_widget =
     \<lparr>preset_manager = [vp_uuid example_fork \<mapsto> example_fork],
      default_preset_for_game = example_builtin,
      selected_preset_uuid = None,
      current_preset_data = None,
      num_players_spin_box = \<lparr>sb_minimum = 1, sb_maximum = 99, sb_value = 2\<rparr>,
      message_boxes = [],
      create_preset_description = [],
      create_generate_button = True,
      create_generate_race_button = True\<rparr>"


text \<open>A preset file that carries the uuid of a preset the manager already holds.\<close>

definition example_import :: VersionedPreset where
  "example_import = with_preset (example_fork_raw\<lparr>p_name := ''Imported''\<rparr>)"

definition example_files :: "Path \<rightharpoonup> VersionedPreset" where
  "example_files = [[''tmp'', ''new.rdvpreset''] \<mapsto> example_import,
                    [''tmp'', ''bad.rdvpreset''] \<mapsto> example_broken]"

definition example_uuid4 :: UUID where
  "example_uuid4 = UUID ''9b2f7c1e-3a54-4d6b-8c0f-1e2d3c4b5a69''"

definition example_now :: datetime where
  "example_now =
     \<lparr>dt_year = 2022, dt_month = 3, dt_day = 7, dt_hour = 9, dt_minute = 5, dt_second = 0\<rparr>"

definition example_layout :: LayoutDescription where
  "example_layout =
     \<lparr>all_games = [\<lparr>short_name = ''prime2'', long_name = ''Metroid Prime 2: Echoes''\<rparr>,
                   \<lparr>short_name = ''prime1'', long_name = ''Metroid Prime''\<rparr>],
      shareable_hash = ''KRQXG5DF'',
      shareable_word_hash = ''Ing Luminoth Splinter'',
      file_extension = ''rdvgame''\<rparr>"

text \<open>Another layout that shares the games, the word hash and the extension.\<close>

definition example_old_layout :: LayoutDescription where
  "example_old_layout = example_layout\<lparr>shareable_hash := ''MFRGGZDF''\<rparr>"

definition example_history_file :: Path where
  "example_history_file =
     [''history'', ''2022-03-07-09-05-00_prime1-prime2_Ing Luminoth Splinter.rdvgame'']"

definition example_fs :: FileSystem where
  "example_fs =
     \<lparr>dirs = {[], [''history'']}, files = [example_history_file \<mapsto> example_old_layout]\<rparr>"


definition example_failure :: GenerationFailure where
  "example_failure = GenerationFailure ''no valid layout found''"

definition example_updates :: "(string \<times> real) list" where
  "example_updates = [(''Creating item pool'', 0), (''Placing items'', 1 / 2)]"

section \<open>Verification\<close>

subsection \<open>The preset context menu\<close>

text \<open>
  Claim C6. Whatever preset the context menu is opened for, the delete and the export
  action are enabled exactly when a preset is there and its \<^verbatim>\<open>base_preset_uuid\<close> is set;
  for a built-in preset, which has none, both are disabled.
\<close>

theorem set_preset_delete_export:
  "enabled (action_delete (set_preset preset m)) =
     (\<exists>vp. preset = Some vp \<and> vp_base_preset_uuid vp \<noteq> None)
   \<and> enabled (action_export (set_preset preset m)) =
     (\<exists>vp. preset = Some vp \<and> vp_base_preset_uuid vp \<noteq> None)
   \<and> (\<forall>vp. vp_base_preset_uuid vp = None \<longrightarrow>
         \<not> enabled (action_delete (set_preset (Some vp) m))
         \<and> \<not> enabled (action_export (set_preset (Some vp) m)))"
  by (cases preset) (simp_all add: set_preset_def setEnabled_def Let_def)

lemma example_builtin_is_root: "vp_base_preset_uuid example_builtin = None"
  by (simp add: example_builtin_def with_preset_def example_raw_def)

lemma example_fork_has_base: "vp_base_preset_uuid example_fork \<noteq> None"
  by (simp add: example_fork_def with_preset_def example_fork_raw_def)

theorem set_preset_delete_export_witness:
  "vp_base_preset_uuid example_builtin = None
   \<and> \<not> enabled (action_delete (set_preset (Some example_builtin) example_menu))
   \<and> \<not> enabled (action_export (set_preset (Some example_builtin) example_menu))
   \<and> enabled (action_delete (set_preset (Some example_fork) example_menu))
   \<and> enabled (action_export (set_preset (Some example_fork) example_menu))
   \<and> \<not> enabled (action_delete (set_preset None example_menu))"
  using example_builtin_is_root example_fork_has_base
    set_preset_delete_export [of "Some example_builtin" example_menu]
    set_preset_delete_export [of "Some example_fork" example_menu]
    set_preset_delete_export [of None example_menu]
  by simp

subsection \<open>Selecting a preset\<close>

text \<open>
  Claim C10. After \<^verbatim>\<open>on_preset_changed\<close> the generate button and the generate-race
  button are enabled exactly when a preset was passed and its \<^verbatim>\<open>get_preset()\<close> returned.
  With no preset the description asks to select one; with an invalid preset the
  description is the error text, which contains the original exception.
\<close>

theorem on_preset_changed_buttons:
  "create_generate_button (on_preset_changed describe preset self)
     = (\<exists>vp raw. preset = Some vp \<and> get_preset vp = Inr raw)
   \<and> create_generate_race_button (on_preset_changed describe preset self)
     = (\<exists>vp raw. preset = Some vp \<and> get_preset vp = Inr raw)
   \<and> (preset = None \<longrightarrow>
        create_preset_description (on_preset_changed describe preset self)
          = ''Please select a preset from the list.'')
   \<and> (\<forall>vp e. preset = Some vp \<and> get_preset vp = Inl e \<longrightarrow>
        create_preset_description (on_preset_changed describe preset self)
          = invalid_description vp e
        \<and> (\<exists>before after. invalid_description vp e = before @ original_exception e @ after))"
proof -
  have shown: "\<exists>before after. invalid_description vp e = before @ original_exception e @ after"
    for vp e
    unfolding invalid_description_def by (metis append.assoc)
  show ?thesis
  proof (cases preset)
    case None
    then show ?thesis by (simp add: on_preset_changed_def)
  next
    case (Some vp)
    then show ?thesis
      using shown by (cases "get_preset vp") (simp_all add: on_preset_changed_def)
  qed
qed

lemma example_builtin_valid: "get_preset example_builtin = Inr example_raw"
  by (simp add: example_builtin_def with_preset_def)

lemma example_broken_invalid:
  "get_preset example_broken = Inl (InvalidPreset ''energy_per_tank is 5000'')"
  by (simp add: example_broken_def)

theorem on_preset_changed_buttons_witness:
  "create_generate_button (on_preset_changed (\<lambda>p. []) (Some example_builtin) example_widget)
   \<and> create_generate_race_button
       (on_preset_changed (\<lambda>p. []) (Some example_builtin) example_widget)
   \<and> \<not> create_generate_button (on_preset_changed (\<lambda>p. []) None example_widget)
   \<and> create_preset_description (on_preset_changed (\<lambda>p. []) None example_widget)
       = ''Please select a preset from the list.''
   \<and> get_preset example_broken = Inl (InvalidPreset ''energy_per_tank is 5000'')
   \<and> \<not> create_generate_button (on_preset_changed (\<lambda>p. []) (Some example_broken) example_widget)
   \<and> \<not> create_generate_race_button
         (on_preset_changed (\<lambda>p. []) (Some example_broken) example_widget)
   \<and> create_preset_description (on_preset_changed (\<lambda>p. []) (Some example_broken) example_widget)
       = invalid_description example_broken (InvalidPreset ''energy_per_tank is 5000'')"
  using example_builtin_valid example_broken_invalid
    on_preset_changed_buttons [of "\<lambda>p. []" "Some example_builtin" example_widget]
    on_preset_changed_buttons [of "\<lambda>p. []" None example_widget]
    on_preset_changed_buttons [of "\<lambda>p. []" "Some example_broken" example_widget]
  by simp

subsection \<open>Importing a preset file\<close>

text \<open>
  Claim C4. When the file at the path holds a preset whose \<^verbatim>\<open>get_preset()\<close> raises
  \<^verbatim>\<open>InvalidPreset\<close>, \<^verbatim>\<open>import_preset_file\<close> shows the error box and returns: the
  presets of the manager, the selected uuid and the selection of the tree are what they
  were.
\<close>

theorem import_invalid_preset_rejected:
  assumes "from_file_sync path = Some preset"
    and "get_preset preset = Inl e"
  shows "\<exists>after. import_preset_file from_file_sync user_response fresh_uuid path self = Some after
           \<and> preset_manager after = preset_manager self
           \<and> selected_preset_uuid after = selected_preset_uuid self
           \<and> current_preset_data after = current_preset_data self
           \<and> message_boxes after = message_boxes self @
                [Critical ''Error loading preset'' (invalid_preset_text path)]"
  using assms by (simp add: import_preset_file_def)

lemma example_bad_file: "example_files [''tmp'', ''bad.rdvpreset''] = Some example_broken"
  by (simp add: example_files_def)

theorem import_invalid_preset_rejected_witness:
  "example_files [''tmp'', ''bad.rdvpreset''] = Some example_broken
   \<and> get_preset example_broken = Inl (InvalidPreset ''energy_per_tank is 5000'')
   \<and> (\<exists>after. import_preset_file example_files Yes example_uuid4
                 [''tmp'', ''bad.rdvpreset''] example_widget = Some after
         \<and> preset_manager after = preset_manager example_widget
         \<and> selected_preset_uuid after = selected_preset_uuid example_widget
         \<and> current_preset_data after = current_preset_data example_widget
         \<and> message_boxes after = message_boxes example_widget @
              [Critical ''Error loading preset''
                 (invalid_preset_text [''tmp'', ''bad.rdvpreset''])])"
  using example_bad_file example_broken_invalid
    import_invalid_preset_rejected
      [where from_file_sync = example_files and path = "[''tmp'', ''bad.rdvpreset'']"
         and user_response = Yes and fresh_uuid = example_uuid4 and self = example_widget,
       OF example_bad_file example_broken_invalid]
  by simp

text \<open>
  Claim C5. When the imported preset carries a uuid the manager already holds, the user
  is asked. On Yes the imported preset replaces the stored one. On No the imported preset
  is stored under the uuid that \<^verbatim>\<open>uuid4()\<close> returned, and, that uuid being new to the
  manager, every preset the manager held stays as it was. On Cancel the presets, the
  selected uuid and the selection stay as they were. So, with a new uuid from
  \<^verbatim>\<open>uuid4()\<close>, the stored preset is replaced only on Yes.
\<close>

theorem import_conflict_resolution:
  assumes "from_file_sync path = Some preset"
    and "get_preset preset = Inr raw"
    and "preset_manager self (vp_uuid preset) = Some existing"
  shows "\<exists>after. import_preset_file from_file_sync user_response fresh_uuid path self = Some after
     \<and> (case user_response of
           Yes \<Rightarrow> preset_manager after = (preset_manager self)(vp_uuid preset \<mapsto> preset)
         | No \<Rightarrow>
             preset_manager after
               = (preset_manager self)(fresh_uuid \<mapsto> with_preset (raw\<lparr>p_uuid := fresh_uuid\<rparr>))
             \<and> (preset_manager self fresh_uuid = None \<longrightarrow>
                  (\<forall>u. u \<noteq> fresh_uuid \<longrightarrow> preset_manager after u = preset_manager self u)
                  \<and> preset_manager after (vp_uuid preset) = Some existing)
         | Cancel \<Rightarrow>
             preset_manager after = preset_manager self
             \<and> selected_preset_uuid after = selected_preset_uuid self
             \<and> current_preset_data after = current_preset_data self)
     \<and> (preset_manager self fresh_uuid = None
          \<and> preset_manager after (vp_uuid preset) \<noteq> Some existing \<longrightarrow> user_response = Yes)"
  using assms
  by (cases user_response)
    (auto simp add: import_preset_file_def preset_for_uuid_def widget_add_new_preset_def
      add_new_preset_def with_preset_def Let_def)

lemma example_new_file: "example_files [''tmp'', ''new.rdvpreset''] = Some example_import"
  by (simp add: example_files_def)

lemma example_import_valid:
  "get_preset example_import = Inr (example_fork_raw\<lparr>p_name := ''Imported''\<rparr>)"
  by (simp add: example_import_def with_preset_def)

lemma example_import_conflict:
  "preset_manager example_widget (vp_uuid example_import) = Some example_fork"
  by (simp add: example_widget_def example_import_def example_fork_def with_preset_def)

lemma example_uuid4_fresh: "preset_manager example_widget example_uuid4 = None"
  by (simp add: example_widget_def example_uuid4_def example_fork_def with_preset_def
      example_fork_raw_def)

theorem import_conflict_resolution_witness:
  "example_files [''tmp'', ''new.rdvpreset''] = Some example_import
   \<and> preset_manager example_widget (vp_uuid example_import) = Some example_fork
   \<and> preset_manager example_widget example_uuid4 = None
   \<and> (\<exists>after. import_preset_file example_files Yes example_uuid4
                 [''tmp'', ''new.rdvpreset''] example_widget = Some after
         \<and> preset_manager after (vp_uuid example_import) = Some example_import)
   \<and> (\<exists>after. import_preset_file example_files No example_uuid4
                 [''tmp'', ''new.rdvpreset''] example_widget = Some after
         \<and> preset_manager after (vp_uuid example_import) = Some example_fork
         \<and> preset_manager after example_uuid4
             = Some (with_preset (example_fork_raw\<lparr>p_name := ''Imported'',
                                                   p_uuid := example_uuid4\<rparr>)))
   \<and> (\<exists>after. import_preset_file example_files Cancel example_uuid4
                 [''tmp'', ''new.rdvpreset''] example_widget = Some after
         \<and> preset_manager after = preset_manager example_widget)"
  using example_new_file example_import_conflict example_uuid4_fresh
    import_conflict_resolution
      [where from_file_sync = example_files and path = "[''tmp'', ''new.rdvpreset'']"
         and user_response = Yes and fresh_uuid = example_uuid4,
       OF example_new_file example_import_valid example_import_conflict]
    import_conflict_resolution
      [where from_file_sync = example_files and path = "[''tmp'', ''new.rdvpreset'']"
         and user_response = No and fresh_uuid = example_uuid4,
       OF example_new_file example_import_valid example_import_conflict]
    import_conflict_resolution
      [where from_file_sync = example_files and path = "[''tmp'', ''new.rdvpreset'']"
         and user_response = Cancel and fresh_uuid = example_uuid4,
       OF example_new_file example_import_valid example_import_conflict]
  by auto

subsection \<open>Requesting a new layout\<close>

lemma widget_preset_example: "get_preset (widget_preset example_widget) = Inr example_raw"
  by (simp add: widget_preset_def example_widget_def example_builtin_def with_preset_def)

text \<open>
  Claim C1. The seed number handed to \<^verbatim>\<open>GeneratorParameters\<close> is what
  \<^verbatim>\<open>random.randint(0, 2 ** 31)\<close> returns, and that call includes its upper end: when it
  returns \<open>2 ^ 31\<close>, the seed number of the constructed parameters is \<open>2 ^ 31\<close>, which is
  not below \<open>2 ^ 31\<close>.
\<close>

theorem generate_new_layout_seed_upper_bound:
  "(2::int) ^ 31 \<in> randint 0 (2 ^ 31)
   \<and> map_sum id (seed_number \<circ> fst) (generate_new_layout (\<lambda>a b. b) True None example_widget)
       = Inr (2 ^ 31)
   \<and> \<not> ((2::int) ^ 31 < 2 ^ 31)"
  by (simp add: randint_def generate_new_layout_def Let_def widget_preset_example)

text \<open>
  Every seed number that \<^verbatim>\<open>generate_new_layout\<close> hands on is one that
  \<^verbatim>\<open>random.randint(0, 2 ** 31)\<close> can return, so it lies between 0 and \<open>2 ^ 31\<close>, both
  included.
\<close>

lemma generate_new_layout_seed_range:
  assumes "random_randint 0 (2 ^ 31) \<in> randint 0 (2 ^ 31)"
    and "generate_new_layout random_randint spoiler_flag retries self = Inr (params, r)"
  shows "0 \<le> seed_number params \<and> seed_number params \<le> 2 ^ 31"
  using assms
  by (auto simp add: generate_new_layout_def Let_def randint_def split: sum.splits)




subsection \<open>The background work\<close>

lemma progress_fractions_reports:
  "progress_fractions (map report us @ es) = map snd us @ progress_fractions es"
  by (induction us) (simp_all add: report_def)

text \<open>
  Claim C3. The progress updates of a run of \<^verbatim>\<open>work\<close> are those of
  \<^verbatim>\<open>generate_layout\<close> followed by exactly one more: 1 when the generation returned a
  layout, the negative value -1 when it raised \<^verbatim>\<open>GenerationFailure\<close>. That update is
  the last one of the run.
\<close>

theorem work_terminal_progress:
  "(\<forall>layout. snd generated = Inr layout \<longrightarrow>
      progress_fractions (fst (work generated now game_history_path fs))
        = map snd (fst generated) @ [1])
   \<and> (\<forall>e. snd generated = Inl e \<longrightarrow>
      progress_fractions (fst (work generated now game_history_path fs))
        = map snd (fst generated) @ [- 1])"
  by (auto simp add: work_def Let_def progress_fractions_reports split: sum.splits)

theorem work_terminal_progress_witness:
  "progress_fractions
     (fst (work (example_updates, Inr example_layout) example_now [''history''] example_fs))
     = [0, 1 / 2, 1]
   \<and> progress_fractions
       (fst (work (example_updates, Inl example_failure) example_now [''history''] example_fs))
     = [0, 1 / 2, - 1]
   \<and> (- 1 :: real) < 0"
  using work_terminal_progress
      [of "(example_updates, Inr example_layout)" example_now "[''history'']" example_fs]
    work_terminal_progress
      [of "(example_updates, Inl example_failure)" example_now "[''history'']" example_fs]
  by (simp add: example_updates_def)

subsection \<open>Persisting a layout\<close>

















subsection \<open>The configuration of Corruption\<close>

text \<open>
  Claim C9. A \<^verbatim>\<open>CorruptionConfiguration\<close> that construction yields has its
  \<^verbatim>\<open>energy_per_tank\<close> between 1 and 1000, and it is the value that was given, unchanged;
  when construction fails, the value was below 1 or above 1000 and the error names the
  field.
\<close>

theorem energy_per_tank_in_domain:
  "(case construct el energy action hypermode of
      Inr c \<Rightarrow> 1 \<le> energy_per_tank c \<and> energy_per_tank c \<le> 1000 \<and> energy_per_tank c = energy
    | Inl e \<Rightarrow> (energy < 1 \<or> 1000 < energy) \<and> e = ValidationError [''energy_per_tank''])"
  by (auto simp add: construct_def validate_def in_domain_def energy_per_tank_metadata_def Let_def)

theorem energy_per_tank_in_domain_witness:
  "construct () 100 () False
     = Inr \<lparr>elevators = (), energy_per_tank = 100, logical_resource_action = (),
            start_with_corrupted_hypermode = False\<rparr>
   \<and> construct () 0 () False = Inl (ValidationError [''energy_per_tank''])
   \<and> construct () 1001 () False = Inl (ValidationError [''energy_per_tank''])"
  using energy_per_tank_in_domain
      [where el = "()" and energy = 100 and action = "()" and hypermode = False]
    energy_per_tank_in_domain
      [where el = "()" and energy = 0 and action = "()" and hypermode = False]
    energy_per_tank_in_domain
      [where el = "()" and energy = 1001 and action = "()" and hypermode = False]
  by (simp add: construct_def validate_def in_domain_def energy_per_tank_metadata_def Let_def)

end
